theory Spec2Isabelle
  imports Complex_Main
begin

section \<open>Numbers, failures and the library functions\<close>

text \<open>
  The module \<^verbatim>\<open>utils.py\<close> computes with floating-point numbers. They are idealised
  here as the reals, so a value \<open>Inr r\<close> of the model is a finite result of the code.
  Whatever the code produces that is no finite number is a \<open>failure\<close>:
  \<^item> \<open>TypeError\<close>: a call of one of the two lambdas with too few arguments;
  \<^item> \<open>ZeroDivisionError\<close>: a division by zero. On Python floats the interpreter raises
    this exception; on NumPy scalars the quotient is \<open>inf\<close> or \<open>nan\<close> with a warning.
    No finite number comes out either way;
  \<^item> \<open>IndexError\<close>: an index outside a sequence;
  \<^item> \<open>ValueError\<close>: operands of an array subtraction whose shapes do not broadcast.

  A distribution function of \<^verbatim>\<open>scipy.stats.exponnorm\<close> is called as
  \<^verbatim>\<open>exponnorm.pdf(x, K, loc=u, scale=sd)\<close>: the library is not part of the repository,
  so \<open>exgauss\<close> and \<open>integral\<close> take it as a parameter, with the arguments in that order.
\<close>

datatype failure = TypeError | ZeroDivisionError | IndexError | ValueError

type_synonym dist_fn = "real \<Rightarrow> real \<Rightarrow> real \<Rightarrow> real \<Rightarrow> real"

text \<open>
  The density of the exponentially modified Gaussian as SciPy documents it:
  \<^verbatim>\<open>f(x, K) = 1/(2K) exp(1/(2K^2) - x/K) erfc(-(x - 1/K) / sqrt(2))\<close>, shifted and
  scaled by \<open>loc\<close> and \<open>scale\<close>. The error function is given by its power series
  \<^verbatim>\<open>erf z = 2/sqrt(pi) * sum_n (-1)^n z^(2n+1) / (n! (2n+1))\<close>, with one factor \<open>z\<close>
  taken out of the sum.
\<close>

definition erf_series :: "real \<Rightarrow> real" where
  "erf_series w = (\<Sum>n. (- 1) ^ n * w ^ n / (fact n * (2 * real n + 1)))"

definition erf :: "real \<Rightarrow> real" where
  "erf z = 2 / sqrt pi * (z * erf_series (z * z))"

definition erfc :: "real \<Rightarrow> real" where
  "erfc z = 1 - erf z"

definition exponnorm_std_pdf :: "real \<Rightarrow> real \<Rightarrow> real" where
  "exponnorm_std_pdf y K =
     1 / (2 * K) * exp (1 / (2 * K * K) - y / K) * erfc (- (y - 1 / K) / sqrt 2)"

definition exponnorm_pdf :: dist_fn where
  "exponnorm_pdf x K loc scale = exponnorm_std_pdf ((x - loc) / scale) K / scale"

text \<open>
  The distribution function, as SciPy computes it:
  \<^verbatim>\<open>F(x, K) = Phi(x) - exp(1/(2K^2) - x/K) Phi(x - 1/K)\<close> with the standard normal
  distribution function \<^verbatim>\<open>Phi(z) = (1 + erf(z / sqrt(2))) / 2\<close>.
\<close>

definition norm_cdf :: "real \<Rightarrow> real" where
  "norm_cdf z = (1 + erf (z / sqrt 2)) / 2"

definition exponnorm_std_cdf :: "real \<Rightarrow> real \<Rightarrow> real" where
  "exponnorm_std_cdf y K =
     norm_cdf y - exp (1 / (2 * K * K) - y / K) * norm_cdf (y - 1 / K)"

definition exponnorm_cdf :: dist_fn where
  "exponnorm_cdf x K loc scale = exponnorm_std_cdf ((x - loc) / scale) K"

section \<open>Model Evaluator: \<^verbatim>\<open>exgauss\<close> and \<^verbatim>\<open>integral\<close>\<close>

text \<open>
  \<^verbatim>\<open>range(0, n, 3)\<close> for \<open>n = len(args) - 1\<close>. For an empty \<open>args\<close> Python's bound is
  \<open>-1\<close> and the range is empty, as it is for the truncated difference \<open>0\<close>.
\<close>

definition range3 :: "nat \<Rightarrow> nat list" where
  "range3 n = map (\<lambda>j. 3 * j) [0..<(n + 2) div 3]"

text \<open>
  The lambda \<^verbatim>\<open>_exgauss = lambda x, a, u, sd, ts: a * exponnorm.pdf(x, ts / sd, loc=u, scale=sd)\<close>
  called as \<^verbatim>\<open>_exgauss(x, *chunk, ts)\<close>: a chunk that is no triple makes the call a
  \<open>TypeError\<close>; then \<open>ts / sd\<close> is evaluated.
\<close>

definition exgauss_term :: "dist_fn \<Rightarrow> real \<Rightarrow> real list \<Rightarrow> real \<Rightarrow> failure + real" where
  "exgauss_term pdf x chunk ts =
     (case chunk of
        [a, u, sd] \<Rightarrow> if sd = 0 then Inl ZeroDivisionError else Inr (a * pdf x (ts / sd) u sd)
      | _ \<Rightarrow> Inl TypeError)"

text \<open>The lambda \<^verbatim>\<open>single_integral\<close>, the same with \<^verbatim>\<open>exponnorm.cdf\<close>.\<close>

definition single_integral :: "dist_fn \<Rightarrow> real \<Rightarrow> real list \<Rightarrow> real \<Rightarrow> failure + real" where
  "single_integral cdf x chunk ts =
     (case chunk of
        [a, u, sd] \<Rightarrow> if sd = 0 then Inl ZeroDivisionError else Inr (a * cdf x (ts / sd) u sd)
      | _ \<Rightarrow> Inl TypeError)"

text \<open>
  Python's \<^verbatim>\<open>sum\<close> over a generator: it starts from \<open>0\<close>, asks for one term after the
  other and adds it; the first term that fails ends the sum with that failure.
\<close>

fun py_sum :: "(nat \<Rightarrow> failure + real) \<Rightarrow> nat list \<Rightarrow> real \<Rightarrow> failure + real" where
  "py_sum g [] acc = Inr acc"
| "py_sum g (i # is) acc =
     (case g i of Inl e \<Rightarrow> Inl e | Inr v \<Rightarrow> py_sum g is (acc + v))"

text \<open>
  \<^verbatim>\<open>sum(_exgauss(x, *args[i:i+3], args[-1]) for i in range(0, len(args)-1, 3))\<close>.
  The slice \<^verbatim>\<open>args[i:i+3]\<close> is \<open>take 3 (drop i args)\<close>; \<^verbatim>\<open>args[-1]\<close> is only
  evaluated inside the generator, where \<open>args\<close> has at least two elements.
\<close>

definition exgauss :: "dist_fn \<Rightarrow> real \<Rightarrow> real list \<Rightarrow> failure + real" where
  "exgauss pdf x args =
     py_sum (\<lambda>i. exgauss_term pdf x (take 3 (drop i args)) (last args))
       (range3 (length args - 1)) 0"

definition integral :: "dist_fn \<Rightarrow> real \<Rightarrow> real list \<Rightarrow> failure + real" where
  "integral cdf x args =
     py_sum (\<lambda>i. single_integral cdf x (take 3 (drop i args)) (last args))
       (range3 (length args - 1)) 0"

section \<open>Range Extractor: \<^verbatim>\<open>raw_burst_range\<close>\<close>

text \<open>
  Only the raw mode is modelled. The loops of \<^verbatim>\<open>model_burst_range\<close> compare values of
  \<^verbatim>\<open>integral\<close> that are \<open>nan\<close> on NumPy numbers (a zero scale, a shape the library
  rejects) and stop there, which has no counterpart over the reals.
\<close>

text \<open>
  \<^verbatim>\<open>np.trapz(ys)\<close> with unit spacing: the sum of \<^verbatim>\<open>(ys[j+1] + ys[j]) / 2\<close> over the
  neighbouring pairs; \<open>0\<close> for an array of fewer than two samples.
\<close>

fun trapz :: "real list \<Rightarrow> real" where
  "trapz (a # b # ys) = (b + a) / 2 + trapz (b # ys)"
| "trapz _ = 0"

text \<open>
  \<^verbatim>\<open>while np.trapz(ys[:i]) < bound: i += 1\<close>, entered at \<open>i\<close>; the result is the \<open>i\<close> at
  which the loop is left. The slice \<^verbatim>\<open>ys[:i]\<close> is \<open>take i ys\<close>, the whole array once
  \<open>i\<close> passes its length, so nothing stops the loop there: a run that never ends is
  \<open>None\<close>.
\<close>

partial_function (option) area_scan :: "real list \<Rightarrow> real \<Rightarrow> nat \<Rightarrow> nat option" where
  "area_scan ys bound i =
     (if trapz (take i ys) < bound then area_scan ys bound (Suc i) else Some i)"

definition raw_burst_range :: "real list \<Rightarrow> real \<Rightarrow> real \<Rightarrow> (real \<times> real) option" where
  "raw_burst_range ys area extra_width =
     (let total_area = trapz ys;
          low_area = (1 - area) / 2 * total_area;
          high_area = (1 + area) / 2 * total_area
      in case area_scan ys low_area 0 of
           None \<Rightarrow> None
         | Some low \<Rightarrow>
             (case area_scan ys high_area low of
                None \<Rightarrow> None
              | Some i \<Rightarrow>
                  (let width = (real i - real low) * extra_width
                   in Some (max 0 (real low - width),
                            min (real (length ys)) (real i + width)))))"

section \<open>Fit Statistics: \<^verbatim>\<open>rsquared\<close> and \<^verbatim>\<open>adjusted_rsquared\<close>\<close>

text \<open>The list comprehension \<^verbatim>\<open>[exgauss(x, *params) for x in xs]\<close>: the first failure ends it.\<close>

fun comprehension :: "('a \<Rightarrow> failure + 'b) \<Rightarrow> 'a list \<Rightarrow> failure + 'b list" where
  "comprehension f [] = Inr []"
| "comprehension f (x # xs) =
     (case f x of
        Inl e \<Rightarrow> Inl e
      | Inr v \<Rightarrow> (case comprehension f xs of Inl e \<Rightarrow> Inl e | Inr vs \<Rightarrow> Inr (v # vs)))"

text \<open>
  NumPy's subtraction of two one-dimensional arrays: element by element when the
  lengths agree; an array of length one is stretched to the other's length (also to
  length zero); any other pair of lengths is a \<open>ValueError\<close>.
\<close>

definition np_subtract :: "real list \<Rightarrow> real list \<Rightarrow> failure + real list" where
  "np_subtract a b =
     (if length a = length b then Inr (map (\<lambda>(v, w). v - w) (zip a b))
      else if length a = 1 then Inr (map (\<lambda>w. hd a - w) b)
      else if length b = 1 then Inr (map (\<lambda>v. v - hd b) a)
      else Inl ValueError)"

text \<open>\<^verbatim>\<open>np.mean\<close>: the mean of an empty array is \<open>0 / 0\<close>.\<close>

definition np_mean :: "real list \<Rightarrow> failure + real" where
  "np_mean ys =
     (if ys = [] then Inl ZeroDivisionError else Inr (sum_list ys / real (length ys)))"

definition rsquared :: "dist_fn \<Rightarrow> real list \<Rightarrow> real list \<Rightarrow> real list \<Rightarrow> failure + real" where
  "rsquared pdf xs ys params =
     (case comprehension (\<lambda>x. exgauss pdf x params) xs of
        Inl e \<Rightarrow> Inl e
      | Inr fitted \<Rightarrow>
          (case np_subtract ys fitted of
             Inl e \<Rightarrow> Inl e
           | Inr residuals \<Rightarrow>
               (let ss_res = sum_list (map (\<lambda>r. r ^ 2) residuals)
                in (case np_mean ys of
                      Inl e \<Rightarrow> Inl e
                    | Inr m \<Rightarrow>
                        (let ss_tot = sum_list (map (\<lambda>y. (y - m) ^ 2) ys)
                         in if ss_tot = 0 then Inl ZeroDivisionError
                            else Inr (1 - ss_res / ss_tot))))))"

text \<open>
  \<^verbatim>\<open>1 - (1 - rs) * (len(xs) - 1) / (len(xs) - len(params) - 1)\<close>: the lengths are Python
  integers, so the denominator may be negative, and only the denominator \<open>0\<close> has no
  quotient.
\<close>

definition adjusted_rsquared ::
  "dist_fn \<Rightarrow> real list \<Rightarrow> real list \<Rightarrow> real list \<Rightarrow> failure + real" where
  "adjusted_rsquared pdf xs ys params =
     (case rsquared pdf xs ys params of
        Inl e \<Rightarrow> Inl e
      | Inr rs \<Rightarrow>
          (let n = int (length xs); p = int (length params)
           in if n - p - 1 = 0 then Inl ZeroDivisionError
              else Inr (1 - (1 - rs) * real_of_int (n - 1) / real_of_int (n - p - 1))))"

text \<open>
  The two sums of squares as the specification writes them, for a model function \<open>f\<close>
  and samples of equal number: \<open>SS_res\<close>, the sum of the squared residuals
  \<open>y - f x\<close>, and \<open>SS_tot\<close>, the sum of the squared deviations of \<open>ys\<close> from its mean.
\<close>

definition ss_res :: "(real \<Rightarrow> real) \<Rightarrow> real list \<Rightarrow> real list \<Rightarrow> real" where
  "ss_res f xs ys = (\<Sum>(x, y)\<leftarrow>zip xs ys. (y - f x) ^ 2)"

definition ss_tot :: "real list \<Rightarrow> real" where
  "ss_tot ys = (\<Sum>y\<leftarrow>ys. (y - sum_list ys / real (length ys)) ^ 2)"


section \<open>The evaluator as a sum over the components\<close>

lemma py_sum_cases:
  "\<forall>i\<in>set is. g i = Inr (h i) \<or> g i = Inl e \<Longrightarrow>
   py_sum g is acc =
     (if \<exists>i\<in>set is. g i = Inl e then Inl e else Inr (acc + sum_list (map h is)))"
proof (induction "is" arbitrary: acc)
  case Nil
  then show ?case by simp
next
  case (Cons i "is")
  from Cons.prems have rest: "\<forall>i\<in>set is. g i = Inr (h i) \<or> g i = Inl e" by simp
  from Cons.prems have "g i = Inr (h i) \<or> g i = Inl e" by simp
  then show ?case
  proof
    assume "g i = Inr (h i)"
    then show ?thesis using Cons.IH [OF rest, of "acc + h i"] by (simp add: add.assoc)
  next
    assume "g i = Inl e"
    then show ?thesis by simp
  qed
qed

lemma chunk_triple:
  assumes "3 * j + 3 \<le> length args"
  shows "take 3 (drop (3 * j) args) = [args ! (3 * j), args ! (3 * j + 1), args ! (3 * j + 2)]"
proof -
  have len: "length (take 3 (drop (3 * j) args)) = 3" using assms by simp
  show ?thesis
    by (rule nth_equalityI) (use assms len in \<open>auto simp: less_Suc_eq numeral_3_eq_3\<close>)
qed

lemma sum_list_range3:
  "sum_list (map h (range3 (3 * k))) = (\<Sum>j<k. h (3 * j))"
proof -
  have "(3 * k + 2) div 3 = k" by simp
  then show ?thesis
    by (simp add: range3_def comp_def interv_sum_list_conv_sum_set_nat atLeast0LessThan)
qed

lemma exgauss_eval:
  assumes "length args = 3 * k + 1"
  shows "exgauss f x args =
           (if \<exists>j<k. args ! (3 * j + 2) = 0 then Inl ZeroDivisionError
            else Inr (\<Sum>j<k. args ! (3 * j) *
                      f x (last args / args ! (3 * j + 2)) (args ! (3 * j + 1)) (args ! (3 * j + 2))))"
proof -
  let ?g = "\<lambda>i. exgauss_term f x (take 3 (drop i args)) (last args)"
  let ?h = "\<lambda>i. args ! i * f x (last args / args ! (i + 2)) (args ! (i + 1)) (args ! (i + 2))"
  have set_eq: "set (range3 (3 * k)) = (\<lambda>j. 3 * j) ` {..<k}"
    by (auto simp: range3_def)
  have one: "?g (3 * j) = (if args ! (3 * j + 2) = 0 then Inl ZeroDivisionError else Inr (?h (3 * j)))"
    if "j < k" for j
    using that assms by (simp add: chunk_triple exgauss_term_def)
  have "\<forall>i\<in>set (range3 (3 * k)). ?g i = Inr (?h i) \<or> ?g i = Inl ZeroDivisionError"
    unfolding set_eq using one by auto
  from py_sum_cases [OF this, of 0]
  have "exgauss f x args =
        (if \<exists>i\<in>set (range3 (3 * k)). ?g i = Inl ZeroDivisionError then Inl ZeroDivisionError
         else Inr (sum_list (map ?h (range3 (3 * k)))))"
    using assms by (simp add: exgauss_def)
  moreover have "(\<exists>i\<in>set (range3 (3 * k)). ?g i = Inl ZeroDivisionError) \<longleftrightarrow>
                 (\<exists>j<k. args ! (3 * j + 2) = 0)"
    unfolding set_eq using one by auto
  ultimately show ?thesis
    by (simp add: sum_list_range3)
qed

text \<open>The two functions differ only in the library function they call.\<close>

lemma integral_is_exgauss: "integral f x args = exgauss f x args"
  by (simp add: integral_def exgauss_def single_integral_def exgauss_term_def)

lemma two_components:
  fixes args :: "real list"
  assumes "args ! 2 \<noteq> 0" and "args ! 5 \<noteq> 0"
  shows "\<not> (\<exists>j<2. args ! (3 * j + 2) = 0)"
proof
  assume "\<exists>j<2. args ! (3 * j + 2) = 0"
  then obtain j where j: "j < 2" and z: "args ! (3 * j + 2) = 0" by blast
  from j have "j = 0 \<or> j = 1" by auto
  then show False
  proof
    assume "j = 0" with z assms(1) show False by (simp add: numeral_2_eq_2)
  next
    assume "j = 1" with z assms(2) show False by simp
  qed
qed

text \<open>
  C1. On a parameter vector of length \<open>3k + 1\<close> \<open>exgauss\<close> returns the sum, over the
  \<open>k\<close> components, of \<open>amplitude\<^sub>j * pdf(x; shape = ts / scale\<^sub>j, loc = location\<^sub>j, scale = scale\<^sub>j)\<close>
  where \<open>ts\<close> is the last element; \<open>k\<close> is \<open>(len - 1) / 3\<close>, whatever it is. The quotient
  \<open>ts / scale\<^sub>j\<close> exists for a scale other than \<open>0\<close>: a component of scale \<open>0\<close> makes the
  call a division by zero.
\<close>

theorem exgauss_component_sum:
  assumes "length args = 3 * k + 1"
  shows "k = (length args - 1) div 3 \<and>
         exgauss pdf x args =
           (if \<exists>j<k. args ! (3 * j + 2) = 0 then Inl ZeroDivisionError
            else Inr (\<Sum>j<k. args ! (3 * j) *
                      pdf x (last args / args ! (3 * j + 2)) (args ! (3 * j + 1)) (args ! (3 * j + 2))))"
  using assms exgauss_eval [OF assms, of pdf x] by simp

theorem exgauss_component_sum_witness:
  "length [2, 0, 1, 3, 1, 2, 1 :: real] = 3 * 2 + 1 \<and>
   exgauss exponnorm_pdf 0 [2, 0, 1, 3, 1, 2, 1] =
     Inr (2 * exponnorm_pdf 0 1 0 1 + 3 * exponnorm_pdf 0 (1 / 2) 1 2)"
proof -
  let ?args = "[2, 0, 1, 3, 1, 2, 1 :: real]"
  have len: "length ?args = 3 * 2 + 1" by simp
  have nz: "\<not> (\<exists>j<2. ?args ! (3 * j + 2) = 0)" by (rule two_components) simp_all
  have "exgauss exponnorm_pdf 0 ?args =
        Inr (\<Sum>j<2. ?args ! (3 * j) *
               exponnorm_pdf 0 (last ?args / ?args ! (3 * j + 2)) (?args ! (3 * j + 1))
                 (?args ! (3 * j + 2)))"
    using conjunct2 [OF exgauss_component_sum [OF len, of exponnorm_pdf 0]] nz
    by (simp only: if_False)
  then show ?thesis by (simp add: numeral_2_eq_2)
qed

text \<open>
  C2. On a parameter vector of length \<open>3k + 1\<close> \<open>integral\<close> returns the same sum over
  the \<open>k\<close> components with the distribution function \<open>cdf\<close> in the place of the density:
  the sum of \<open>amplitude\<^sub>j * cdf(x; shape = ts / scale\<^sub>j, loc = location\<^sub>j, scale = scale\<^sub>j)\<close>,
  each term the area of its component from minus infinity up to \<open>x\<close>.
\<close>

theorem integral_component_sum:
  assumes "length args = 3 * k + 1"
  shows "integral cdf x args =
           (if \<exists>j<k. args ! (3 * j + 2) = 0 then Inl ZeroDivisionError
            else Inr (\<Sum>j<k. args ! (3 * j) *
                      cdf x (last args / args ! (3 * j + 2)) (args ! (3 * j + 1)) (args ! (3 * j + 2))))"
  using exgauss_eval [OF assms, of cdf x] by (simp add: integral_is_exgauss)

theorem integral_component_sum_witness:
  "length [2, 0, 1, 3, 1, 2, 1 :: real] = 3 * 2 + 1 \<and>
   integral exponnorm_cdf 4 [2, 0, 1, 3, 1, 2, 1] =
     Inr (2 * exponnorm_cdf 4 1 0 1 + 3 * exponnorm_cdf 4 (1 / 2) 1 2)"
proof -
  let ?args = "[2, 0, 1, 3, 1, 2, 1 :: real]"
  have len: "length ?args = 3 * 2 + 1" by simp
  have nz: "\<not> (\<exists>j<2. ?args ! (3 * j + 2) = 0)" by (rule two_components) simp_all
  have "integral exponnorm_cdf 4 ?args =
        Inr (\<Sum>j<2. ?args ! (3 * j) *
               exponnorm_cdf 4 (last ?args / ?args ! (3 * j + 2)) (?args ! (3 * j + 1))
                 (?args ! (3 * j + 2)))"
    using integral_component_sum [OF len, of exponnorm_cdf 4] nz
    by (simp only: if_False)
  then show ?thesis by (simp add: numeral_2_eq_2)
qed

section \<open>The evaluator on a vector that holds only the shared time scale\<close>

text \<open>
  C9. On a parameter vector of length one (only \<open>ts\<close>, no component) both \<open>exgauss\<close> and
  \<open>integral\<close> return \<open>0\<close> at every \<open>x\<close>: the range of component offsets is empty, the
  sum is the empty sum, and no check of the length raises.
\<close>

theorem evaluator_length_one_zero:
  "exgauss pdf x [ts] = Inr 0 \<and> integral cdf x [ts] = Inr 0"
  by (simp add: exgauss_def integral_def range3_def)

section \<open>The loops of the raw-mode range extractor\<close>

lemma area_scan_reach:
  assumes "i \<le> j" and "\<not> trapz (take j ys) < b"
  shows "\<exists>m. area_scan ys b i = Some m \<and> i \<le> m \<and> m \<le> j \<and> \<not> trapz (take m ys) < b \<and>
             (\<forall>l. i \<le> l \<and> l < m \<longrightarrow> trapz (take l ys) < b)"
  using assms
proof (induction "j - i" arbitrary: i)
  case 0
  then have "i = j" by simp
  with 0 have "area_scan ys b i = Some i" by (subst area_scan.simps) simp
  with \<open>i = j\<close> 0 show ?case by auto
next
  case (Suc d)
  show ?case
  proof (cases "trapz (take i ys) < b")
    case False
    then have "area_scan ys b i = Some i" by (subst area_scan.simps) simp
    with False Suc.prems show ?thesis by auto
  next
    case True
    then have step: "area_scan ys b i = area_scan ys b (Suc i)" by (subst area_scan.simps) simp
    from Suc.hyps(2) have "d = j - Suc i" and "Suc i \<le> j" by simp_all
    from Suc.hyps(1) [OF this Suc.prems(2)] obtain m where
      m: "area_scan ys b (Suc i) = Some m" "Suc i \<le> m" "m \<le> j" "\<not> trapz (take m ys) < b"
         "\<forall>l. Suc i \<le> l \<and> l < m \<longrightarrow> trapz (take l ys) < b" by blast
    have "\<forall>l. i \<le> l \<and> l < m \<longrightarrow> trapz (take l ys) < b"
    proof (intro allI impI)
      fix l assume "i \<le> l \<and> l < m"
      then have "l = i \<or> (Suc i \<le> l \<and> l < m)" by auto
      then show "trapz (take l ys) < b" using True m(5) by auto
    qed
    with m step show ?thesis by auto
  qed
qed

lemma area_scan_SomeD:
  assumes "area_scan ys b i = Some m"
  shows "i \<le> m \<and> \<not> trapz (take m ys) < b \<and>
         (\<forall>l. i \<le> l \<and> l < m \<longrightarrow> trapz (take l ys) < b)"
proof (rule area_scan.raw_induct
    [where P = "\<lambda>ys b i m. i \<le> m \<and> \<not> trapz (take m ys) < b \<and>
                  (\<forall>l. i \<le> l \<and> l < m \<longrightarrow> trapz (take l ys) < b)", OF _ assms])
  fix f :: "real list \<Rightarrow> real \<Rightarrow> nat \<Rightarrow> nat option" and zs c k r
  assume IH: "\<And>zs c k r. f zs c k = Some r \<Longrightarrow>
                k \<le> r \<and> \<not> trapz (take r zs) < c \<and>
                (\<forall>l. k \<le> l \<and> l < r \<longrightarrow> trapz (take l zs) < c)"
    and eq: "(if trapz (take k zs) < c then f zs c (Suc k) else Some k) = Some r"
  show "k \<le> r \<and> \<not> trapz (take r zs) < c \<and>
        (\<forall>l. k \<le> l \<and> l < r \<longrightarrow> trapz (take l zs) < c)"
  proof (cases "trapz (take k zs) < c")
    case True
    with eq have "f zs c (Suc k) = Some r" by simp
    from IH [OF this] have
      r: "Suc k \<le> r" "\<not> trapz (take r zs) < c"
         "\<forall>l. Suc k \<le> l \<and> l < r \<longrightarrow> trapz (take l zs) < c" by auto
    have "\<forall>l. k \<le> l \<and> l < r \<longrightarrow> trapz (take l zs) < c"
    proof (intro allI impI)
      fix l assume "k \<le> l \<and> l < r"
      then have "l = k \<or> (Suc k \<le> l \<and> l < r)" by auto
      then show "trapz (take l zs) < c" using True r(3) by auto
    qed
    with r show ?thesis by auto
  next
    case False
    with eq show ?thesis by auto
  qed
qed

lemma area_scan_None:
  assumes "\<forall>j\<ge>i. trapz (take j ys) < b"
  shows "area_scan ys b i = None"
proof (cases "area_scan ys b i")
  case None
  then show ?thesis .
next
  case (Some m)
  from area_scan_SomeD [OF this] assms show ?thesis by auto
qed

lemma area_scan_bound:
  assumes "area_scan ys b i = Some m"
  shows "m \<le> max i (length ys)"
proof (rule ccontr)
  assume "\<not> m \<le> max i (length ys)"
  then have gt: "i < m" "length ys < m" by auto
  from area_scan_SomeD [OF assms] have
    reached: "\<not> trapz (take m ys) < b" and
    before: "\<forall>l. i \<le> l \<and> l < m \<longrightarrow> trapz (take l ys) < b" by auto
  from gt have "i \<le> m - 1 \<and> m - 1 < m" and full: "length ys \<le> m - 1" by auto
  with before have "trapz (take (m - 1) ys) < b" by blast
  with full gt reached show False by simp
qed


lemma trapz_zeros: "\<forall>y\<in>set ys. y = 0 \<Longrightarrow> trapz ys = 0"
  by (induction ys rule: trapz.induct) simp_all

lemma raw_burst_range_zero_area:
  assumes "trapz ys = 0"
  shows "raw_burst_range ys area extra_width = Some (0, 0)"
proof -
  have "area_scan ys 0 0 = Some 0" by (subst area_scan.simps) simp
  with assms show ?thesis by (simp add: raw_burst_range_def Let_def)
qed

lemma thresholds_reached:
  assumes "0 \<le> area" and "area \<le> 1"
  shows "(\<exists>j. (1 - area) / 2 * trapz ys \<le> trapz (take j ys)) \<and>
         (\<exists>j. (1 + area) / 2 * trapz ys \<le> trapz (take j ys))"
proof (cases "0 \<le> trapz ys")
  case True
  have "0 \<le> (1 + area) / 2 * trapz ys" "0 \<le> (1 - area) / 2 * trapz ys"
    using assms True by simp_all
  moreover have "trapz ys - (1 - area) / 2 * trapz ys = (1 + area) / 2 * trapz ys"
    "trapz ys - (1 + area) / 2 * trapz ys = (1 - area) / 2 * trapz ys"
    by (simp_all add: field_simps)
  ultimately have "(1 - area) / 2 * trapz ys \<le> trapz (take (length ys) ys)"
    "(1 + area) / 2 * trapz ys \<le> trapz (take (length ys) ys)"
    by simp_all
  then show ?thesis by blast
next
  case False
  then have "(1 - area) / 2 * trapz ys \<le> 0" "(1 + area) / 2 * trapz ys \<le> 0"
    using assms by (simp_all add: mult_nonneg_nonpos)
  then have "(1 - area) / 2 * trapz ys \<le> trapz (take 0 ys)"
    "(1 + area) / 2 * trapz ys \<le> trapz (take 0 ys)" by simp_all
  then show ?thesis by blast
qed

lemma raw_burst_range_least:
  assumes area: "0 \<le> area" "area \<le> 1"
    and rl: "\<exists>j. (1 - area) / 2 * trapz ys \<le> trapz (take j ys)"
    and rh: "\<exists>j. (1 + area) / 2 * trapz ys \<le> trapz (take j ys)"
  shows "\<exists>low high.
           (1 - area) / 2 * trapz ys \<le> trapz (take low ys) \<and>
           (\<forall>j<low. trapz (take j ys) < (1 - area) / 2 * trapz ys) \<and>
           (1 + area) / 2 * trapz ys \<le> trapz (take high ys) \<and>
           (\<forall>j<high. trapz (take j ys) < (1 + area) / 2 * trapz ys) \<and>
           low \<le> high \<and> high \<le> length ys \<and>
           raw_burst_range ys area extra_width =
             Some (max 0 (real low - (real high - real low) * extra_width),
                   min (real (length ys)) (real high + (real high - real low) * extra_width))"
proof -
  let ?la = "(1 - area) / 2 * trapz ys" and ?ha = "(1 + area) / 2 * trapz ys"
  from rl obtain j where "\<not> trapz (take j ys) < ?la" by (auto simp: not_less)
  from area_scan_reach [OF _ this, of 0] obtain low where
    low: "area_scan ys ?la 0 = Some low" and
    l1: "\<not> trapz (take low ys) < ?la" and
    l2: "\<forall>l. 0 \<le> l \<and> l < low \<longrightarrow> trapz (take l ys) < ?la" by auto
  have below: "trapz (take l ys) < ?ha" if "l < low" for l
  proof (cases "0 \<le> trapz ys")
    case True
    have "?ha - ?la = area * trapz ys" by (simp add: field_simps)
    moreover have "0 \<le> area * trapz ys" using area True by simp
    ultimately have "?la \<le> ?ha" by linarith
    with l2 that show ?thesis by fastforce
  next
    case False
    then have "?la \<le> 0" using area by (simp add: mult_nonneg_nonpos)
    then have "\<not> trapz (take 0 ys) < ?la" by simp
    with l2 have "low = 0" by (cases low) auto
    with that show ?thesis by simp
  qed
  from rh obtain j' where j': "\<not> trapz (take j' ys) < ?ha" by (auto simp: not_less)
  with below have "low \<le> j'" by (meson not_le)
  from area_scan_reach [OF this j'] obtain high where
    high: "area_scan ys ?ha low = Some high" and
    h0: "low \<le> high" and
    h1: "\<not> trapz (take high ys) < ?ha" and
    h2: "\<forall>l. low \<le> l \<and> l < high \<longrightarrow> trapz (take l ys) < ?ha" by auto
  have h3: "\<forall>l<high. trapz (take l ys) < ?ha"
  proof (intro allI impI)
    fix l assume "l < high"
    show "trapz (take l ys) < ?ha"
    proof (cases "l < low")
      case True
      then show ?thesis by (rule below)
    next
      case False
      with \<open>l < high\<close> h2 show ?thesis by simp
    qed
  qed
  from area_scan_bound [OF low] have "low \<le> length ys" by simp
  with area_scan_bound [OF high] have h4: "high \<le> length ys" by simp
  have "raw_burst_range ys area extra_width =
          Some (max 0 (real low - (real high - real low) * extra_width),
                min (real (length ys)) (real high + (real high - real low) * extra_width))"
    using low high by (simp add: raw_burst_range_def Let_def)
  with l1 l2 h1 h3 h0 h4 show ?thesis by (auto simp: not_less)
qed

text \<open>
  C3. Let the area fraction lie in \<open>[0, 1]\<close> and let the cumulative area
  \<open>trapz (take j ys)\<close> reach both thresholds. Then \<open>raw_burst_range\<close> returns: with
  \<open>low\<close> the smallest index whose cumulative area is at least \<open>(1 - area) / 2\<close> of the
  total area and \<open>high\<close> the smallest index whose cumulative area is at least
  \<open>(1 + area) / 2\<close> of it, the pair of \<open>low - extra_width * (high - low)\<close> clamped below
  at \<open>0\<close> and \<open>high + extra_width * (high - low)\<close> clamped above at the length, so that
  the window from the first to the second lies within the window from \<open>0\<close> to the length.
\<close>

theorem raw_burst_range_smallest_indices:
  assumes "0 \<le> area" and "area \<le> 1"
    and "\<exists>j. (1 - area) / 2 * trapz ys \<le> trapz (take j ys)"
    and "\<exists>j. (1 + area) / 2 * trapz ys \<le> trapz (take j ys)"
  shows "\<exists>low high.
           (1 - area) / 2 * trapz ys \<le> trapz (take low ys) \<and>
           (\<forall>j<low. trapz (take j ys) < (1 - area) / 2 * trapz ys) \<and>
           (1 + area) / 2 * trapz ys \<le> trapz (take high ys) \<and>
           (\<forall>j<high. trapz (take j ys) < (1 + area) / 2 * trapz ys) \<and>
           raw_burst_range ys area extra_width =
             Some (max 0 (real low - (real high - real low) * extra_width),
                   min (real (length ys)) (real high + (real high - real low) * extra_width))"
  using raw_burst_range_least [OF assms, of extra_width] by blast

theorem raw_burst_range_smallest_indices_witness:
  "raw_burst_range [0, 2, 0, 0, 0] (1 / 2) (1 / 4) = Some (7 / 4, 13 / 4) \<and>
   (0::real) \<le> 1 / 2 \<and> (1 / 2 :: real) \<le> 1 \<and>
   (1 - 1 / 2) / 2 * trapz [0, 2, 0, 0, 0] \<le> trapz (take 2 [0, 2, 0, 0, 0]) \<and>
   (1 + 1 / 2) / 2 * trapz [0, 2, 0, 0, 0] \<le> trapz (take 3 [0, 2, 0, 0, 0]) \<and>
   (\<exists>low high.
      (1 - 1 / 2) / 2 * trapz [0, 2, 0, 0, 0] \<le> trapz (take low [0, 2, 0, 0, 0]) \<and>
      (\<forall>j<low. trapz (take j [0, 2, 0, 0, 0]) < (1 - 1 / 2) / 2 * trapz [0, 2, 0, 0, 0]) \<and>
      (1 + 1 / 2) / 2 * trapz [0, 2, 0, 0, 0] \<le> trapz (take high [0, 2, 0, 0, 0]) \<and>
      (\<forall>j<high. trapz (take j [0, 2, 0, 0, 0]) < (1 + 1 / 2) / 2 * trapz [0, 2, 0, 0, 0]) \<and>
      raw_burst_range [0, 2, 0, 0, 0] (1 / 2) (1 / 4) =
        Some (max 0 (real low - (real high - real low) * (1 / 4)),
              min (real (length [0, 2, 0, 0, 0 :: real]))
                (real high + (real high - real low) * (1 / 4))))"
proof -
  let ?ys = "[0, 2, 0, 0, 0 :: real]"
  have a: "(0::real) \<le> 1 / 2" "(1 / 2 :: real) \<le> 1" by simp_all
  have l: "(1 - 1 / 2) / 2 * trapz ?ys \<le> trapz (take 2 ?ys)" by (simp add: numeral_2_eq_2)
  have h: "(1 + 1 / 2) / 2 * trapz ?ys \<le> trapz (take 3 ?ys)" by (simp add: numeral_3_eq_3)
  from l have rl: "\<exists>j. (1 - 1 / 2) / 2 * trapz ?ys \<le> trapz (take j ?ys)" ..
  from h have rh: "\<exists>j. (1 + 1 / 2) / 2 * trapz ?ys \<le> trapz (take j ?ys)" ..
  have ev: "raw_burst_range ?ys (1 / 2) (1 / 4) = Some (7 / 4, 13 / 4)"
    by (simp add: raw_burst_range_def area_scan.simps Let_def)
  from raw_burst_range_smallest_indices [OF a rl rh, of "1 / 4"] a l h ev show ?thesis by blast
qed

lemma clamp_order:
  fixes l h n w :: real
  assumes "0 \<le> l" and "l \<le> h" and "h \<le> n" and "0 \<le> w"
  shows "max 0 (l - w) \<le> min n (h + w)"
  using assms by (simp add: max_def min_def)

lemma raw_burst_range_total:
  assumes "0 \<le> area" and "area \<le> 1" and "0 \<le> extra_width"
  shows "\<exists>lo hi. raw_burst_range ys area extra_width = Some (lo, hi) \<and>
                 0 \<le> lo \<and> lo \<le> hi \<and> hi \<le> real (length ys)"
proof -
  from thresholds_reached [OF assms(1,2), of ys] have
    rl: "\<exists>j. (1 - area) / 2 * trapz ys \<le> trapz (take j ys)" and
    rh: "\<exists>j. (1 + area) / 2 * trapz ys \<le> trapz (take j ys)" by blast+
  from raw_burst_range_least [OF assms(1,2) rl rh, of extra_width] obtain low high where
    ord: "low \<le> high" "high \<le> length ys" and
    res: "raw_burst_range ys area extra_width =
            Some (max 0 (real low - (real high - real low) * extra_width),
                  min (real (length ys)) (real high + (real high - real low) * extra_width))"
    by blast
  have w: "0 \<le> (real high - real low) * extra_width" using ord assms(3) by simp
  have "max 0 (real low - (real high - real low) * extra_width)
          \<le> min (real (length ys)) (real high + (real high - real low) * extra_width)"
    using ord by (intro clamp_order [OF _ _ _ w]) simp_all
  with res show ?thesis by (intro exI conjI) (assumption, simp_all)
qed

text \<open>
  C4, as the code has it. No failure is signalled by \<open>raw_burst_range\<close>: on an empty or
  all-zero array, and on any input of total area zero, it returns the pair \<open>(0, 0)\<close>.
  For an area fraction in \<open>[0, 1]\<close> and an expansion factor that is not negative both
  thresholds are reached, the two loops end, and the bounds returned lie between \<open>0\<close>
  and the length, the first not above the second.
\<close>

theorem raw_burst_range_no_failure:
  "((\<forall>y\<in>set ys. y = 0) \<or> trapz ys = 0 \<longrightarrow> raw_burst_range ys area extra_width = Some (0, 0)) \<and>
   (0 \<le> area \<and> area \<le> 1 \<and> 0 \<le> extra_width \<longrightarrow>
      (\<exists>lo hi. raw_burst_range ys area extra_width = Some (lo, hi) \<and>
                0 \<le> lo \<and> lo \<le> hi \<and> hi \<le> real (length ys)))"
  using trapz_zeros [of ys] raw_burst_range_zero_area [of ys area extra_width]
    raw_burst_range_total [of area extra_width ys] by blast

theorem raw_burst_range_no_failure_witness:
  "((\<forall>y\<in>set [0, 0, 0 :: real]. y = 0) \<or> trapz [0, 0, 0] = 0) \<and>
   raw_burst_range [0, 0, 0] (9 / 10) (1 / 10) = Some (0, 0) \<and>
   (0::real) \<le> 9 / 10 \<and> (9 / 10 :: real) \<le> 1 \<and> (0::real) \<le> 1 / 10 \<and>
   (\<exists>lo hi. raw_burst_range [0, 2, 0, 0, 0] (9 / 10) (1 / 10) = Some (lo, hi) \<and>
             0 \<le> lo \<and> lo \<le> hi \<and> hi \<le> real (length [0, 2, 0, 0, 0 :: real]))"
proof -
  have z: "(\<forall>y\<in>set [0, 0, 0 :: real]. y = 0) \<or> trapz [0, 0, 0] = 0" by simp
  have a: "(0::real) \<le> 9 / 10 \<and> (9 / 10 :: real) \<le> 1 \<and> (0::real) \<le> 1 / 10" by simp
  from raw_burst_range_no_failure [of "[0, 0, 0]" "9 / 10" "1 / 10"] z
  have "raw_burst_range [0, 0, 0] (9 / 10) (1 / 10) = Some (0, 0)" by blast
  moreover from raw_burst_range_no_failure [of "[0, 2, 0, 0, 0]" "9 / 10" "1 / 10"] a
  have "\<exists>lo hi. raw_burst_range [0, 2, 0, 0, 0] (9 / 10) (1 / 10) = Some (lo, hi) \<and>
             0 \<le> lo \<and> lo \<le> hi \<and> hi \<le> real (length [0, 2, 0, 0, 0 :: real])" by blast
  ultimately show ?thesis using z a by blast
qed

lemma trapz_ones_le: "trapz (take j [1, 1]) \<le> 1"
proof -
  have "j = 0 \<or> j = 1 \<or> 2 \<le> j" by auto
  then show ?thesis by (auto simp: numeral_2_eq_2)
qed

text \<open>
  C4 as stated fails: the empty array and an all-zero array give the pair \<open>(0, 0)\<close> and
  no failure; with the area fraction \<open>2\<close> the upper threshold of the array \<open>[1, 1]\<close> is
  above every cumulative area, and the second loop never ends.
\<close>

theorem raw_burst_range_no_failure_counterexample:
  "raw_burst_range [] (9 / 10) (1 / 10) = Some (0, 0) \<and>
   raw_burst_range [0, 0, 0, 0] (9 / 10) (1 / 10) = Some (0, 0) \<and>
   raw_burst_range [1, 1] 2 0 = None"
proof -
  have "raw_burst_range [] (9 / 10) (1 / 10) = Some (0, 0)"
    by (rule raw_burst_range_zero_area) simp
  moreover have "raw_burst_range [0, 0, 0, 0] (9 / 10) (1 / 10) = Some (0, 0)"
    by (rule raw_burst_range_zero_area) simp
  moreover have "raw_burst_range [1, 1] 2 0 = None"
  proof -
    have low: "area_scan [1, 1] (- 1 / 2) 0 = Some 0" by (subst area_scan.simps) simp
    have "\<forall>j\<ge>0. trapz (take j [1, 1]) < 3 / 2"
    proof (intro allI impI)
      fix j :: nat
      show "trapz (take j [1, 1]) < 3 / 2" using trapz_ones_le [of j] by simp
    qed
    then have "area_scan [1, 1] (3 / 2) 0 = None" by (rule area_scan_None)
    with low show ?thesis by (simp add: raw_burst_range_def Let_def)
  qed
  ultimately show ?thesis by blast
qed

lemma ratio_not_int:
  fixes p q :: int
  assumes "q \<noteq> 0" and "\<not> q dvd p"
  shows "real_of_int p / real_of_int q \<notin> \<int>"
proof
  assume "real_of_int p / real_of_int q \<in> \<int>"
  then obtain z :: int where z: "real_of_int p / real_of_int q = of_int z" by (auto simp: Ints_def)
  with assms(1) have "real_of_int p = real_of_int (z * q)" by (simp add: field_simps)
  then have "p = z * q" by (simp only: of_int_eq_iff)
  with assms(2) show False by simp
qed

lemma clamped_or_fractional:
  fixes a b n w :: real
  assumes "a \<in> \<int>" and "b \<in> \<int>" and "w \<notin> \<int>"
  shows "(max 0 (a - w) = 0 \<or> max 0 (a - w) \<notin> \<int>) \<and> (min n (b + w) = n \<or> min n (b + w) \<notin> \<int>)"
proof -
  have "a - w \<notin> \<int>"
  proof
    assume "a - w \<in> \<int>"
    with assms(1) have "a - (a - w) \<in> \<int>" by (rule Ints_diff)
    with assms(3) show False by simp
  qed
  moreover have "b + w \<notin> \<int>"
  proof
    assume "b + w \<in> \<int>"
    from this assms(2) have "(b + w) - b \<in> \<int>" by (rule Ints_diff)
    with assms(3) show False by simp
  qed
  ultimately show ?thesis by (auto simp: max_def min_def)
qed

text \<open>
  C10, as the code has it. For an area fraction in \<open>[0, 1]\<close> \<open>raw_burst_range\<close> returns,
  with \<open>low\<close> and \<open>high\<close> the smallest indices at which the cumulative area reaches the
  two thresholds and \<open>width = (high - low) * extra_width\<close>, exactly the pair of
  \<open>max(0, low - width)\<close> and \<open>min(length, high + width)\<close>, with no rounding. When the
  width is no integer, a bound that the clamp leaves alone is no integer either; a bound
  that is clamped is \<open>0\<close> or the length, an integer.
\<close>

theorem raw_burst_range_unrounded:
  assumes "0 \<le> area" and "area \<le> 1"
  shows "\<exists>low high.
           (1 - area) / 2 * trapz ys \<le> trapz (take low ys) \<and>
           (\<forall>j<low. trapz (take j ys) < (1 - area) / 2 * trapz ys) \<and>
           (1 + area) / 2 * trapz ys \<le> trapz (take high ys) \<and>
           (\<forall>j<high. trapz (take j ys) < (1 + area) / 2 * trapz ys) \<and>
           raw_burst_range ys area extra_width =
             Some (max 0 (real low - (real high - real low) * extra_width),
                   min (real (length ys)) (real high + (real high - real low) * extra_width)) \<and>
           ((real high - real low) * extra_width \<notin> \<int> \<longrightarrow>
              (max 0 (real low - (real high - real low) * extra_width) = 0 \<or>
               max 0 (real low - (real high - real low) * extra_width) \<notin> \<int>) \<and>
              (min (real (length ys)) (real high + (real high - real low) * extra_width)
                 = real (length ys) \<or>
               min (real (length ys)) (real high + (real high - real low) * extra_width) \<notin> \<int>))"
proof -
  from thresholds_reached [OF assms, of ys] have
    rl: "\<exists>j. (1 - area) / 2 * trapz ys \<le> trapz (take j ys)" and
    rh: "\<exists>j. (1 + area) / 2 * trapz ys \<le> trapz (take j ys)" by blast+
  from raw_burst_range_least [OF assms rl rh, of extra_width] obtain low high where
    found: "(1 - area) / 2 * trapz ys \<le> trapz (take low ys)"
      "\<forall>j<low. trapz (take j ys) < (1 - area) / 2 * trapz ys"
      "(1 + area) / 2 * trapz ys \<le> trapz (take high ys)"
      "\<forall>j<high. trapz (take j ys) < (1 + area) / 2 * trapz ys" and
    res: "raw_burst_range ys area extra_width =
            Some (max 0 (real low - (real high - real low) * extra_width),
                  min (real (length ys)) (real high + (real high - real low) * extra_width))"
    by blast
  have "(real high - real low) * extra_width \<notin> \<int> \<longrightarrow>
              (max 0 (real low - (real high - real low) * extra_width) = 0 \<or>
               max 0 (real low - (real high - real low) * extra_width) \<notin> \<int>) \<and>
              (min (real (length ys)) (real high + (real high - real low) * extra_width)
                 = real (length ys) \<or>
               min (real (length ys)) (real high + (real high - real low) * extra_width) \<notin> \<int>)"
    by (intro impI clamped_or_fractional) simp_all
  with found res show ?thesis by blast
qed

theorem raw_burst_range_unrounded_witness:
  "(0::real) \<le> 1 / 2 \<and> (1 / 2 :: real) \<le> 1 \<and>
   raw_burst_range [0, 2, 0, 0, 0] (1 / 2) (1 / 4) = Some (7 / 4, 13 / 4) \<and>
   (7 / 4 :: real) \<notin> \<int> \<and> (13 / 4 :: real) \<notin> \<int> \<and>
   (\<exists>low high.
      (1 - 1 / 2) / 2 * trapz [0, 2, 0, 0, 0] \<le> trapz (take low [0, 2, 0, 0, 0]) \<and>
      (\<forall>j<low. trapz (take j [0, 2, 0, 0, 0]) < (1 - 1 / 2) / 2 * trapz [0, 2, 0, 0, 0]) \<and>
      (1 + 1 / 2) / 2 * trapz [0, 2, 0, 0, 0] \<le> trapz (take high [0, 2, 0, 0, 0]) \<and>
      (\<forall>j<high. trapz (take j [0, 2, 0, 0, 0]) < (1 + 1 / 2) / 2 * trapz [0, 2, 0, 0, 0]) \<and>
      Some (7 / 4, 13 / 4) =
        Some (max 0 (real low - (real high - real low) * (1 / 4)),
              min (real (length [0, 2, 0, 0, 0 :: real]))
                (real high + (real high - real low) * (1 / 4))))"
proof -
  have a: "(0::real) \<le> 1 / 2" "(1 / 2 :: real) \<le> 1" by simp_all
  have ev: "raw_burst_range [0, 2, 0, 0, 0] (1 / 2) (1 / 4) = Some (7 / 4, 13 / 4)"
    by (simp add: raw_burst_range_def area_scan.simps Let_def)
  have n7: "(7 / 4 :: real) \<notin> \<int>" using ratio_not_int [of 4 7] by simp
  have n13: "(13 / 4 :: real) \<notin> \<int>" using ratio_not_int [of 4 13] by simp
  from raw_burst_range_unrounded [OF a, of "[0, 2, 0, 0, 0]" "1 / 4"] obtain low high where
    "(1 - 1 / 2) / 2 * trapz [0, 2, 0, 0, 0] \<le> trapz (take low [0, 2, 0, 0, 0])"
    "\<forall>j<low. trapz (take j [0, 2, 0, 0, 0]) < (1 - 1 / 2) / 2 * trapz [0, 2, 0, 0, 0]"
    "(1 + 1 / 2) / 2 * trapz [0, 2, 0, 0, 0] \<le> trapz (take high [0, 2, 0, 0, 0])"
    "\<forall>j<high. trapz (take j [0, 2, 0, 0, 0]) < (1 + 1 / 2) / 2 * trapz [0, 2, 0, 0, 0]"
    "raw_burst_range [0, 2, 0, 0, 0] (1 / 2) (1 / 4) =
        Some (max 0 (real low - (real high - real low) * (1 / 4)),
              min (real (length [0, 2, 0, 0, 0 :: real]))
                (real high + (real high - real low) * (1 / 4)))"
    by blast
  with ev a n7 n13 show ?thesis by metis
qed

text \<open>
  C10 as stated fails where the clamp acts: for the samples \<open>[0, 2, 0, 0, 0]\<close>, the area
  fraction \<open>1 / 2\<close> and the expansion factor \<open>5 / 2\<close> the loops find \<open>low = 2\<close> and
  \<open>high = 3\<close>, the width \<open>5 / 2\<close> is no integer, and the pair returned is \<open>(0, 5)\<close>, both
  integers.
\<close>

theorem raw_burst_range_unrounded_counterexample:
  "raw_burst_range [0, 2, 0, 0, 0] (1 / 2) (5 / 2) = Some (0, 5) \<and>
   area_scan [0, 2, 0, 0, 0] ((1 - 1 / 2) / 2 * trapz [0, 2, 0, 0, 0]) 0 = Some 2 \<and>
   area_scan [0, 2, 0, 0, 0] ((1 + 1 / 2) / 2 * trapz [0, 2, 0, 0, 0]) 2 = Some 3 \<and>
   (real 3 - real 2) * (5 / 2) \<notin> \<int> \<and> (0 :: real) \<in> \<int> \<and> (5 :: real) \<in> \<int>"
proof -
  have "raw_burst_range [0, 2, 0, 0, 0] (1 / 2) (5 / 2) = Some (0, 5)"
    by (simp add: raw_burst_range_def area_scan.simps Let_def)
  moreover have "area_scan [0, 2, 0, 0, 0] ((1 - 1 / 2) / 2 * trapz [0, 2, 0, 0, 0]) 0 = Some 2"
    by (simp add: area_scan.simps)
  moreover have "area_scan [0, 2, 0, 0, 0] ((1 + 1 / 2) / 2 * trapz [0, 2, 0, 0, 0]) 2 = Some 3"
    by (simp add: area_scan.simps)
  moreover have "(real 3 - real 2) * (5 / 2) \<notin> \<int>" using ratio_not_int [of 2 5] by simp
  ultimately show ?thesis by simp
qed

section \<open>The area enclosed by a raw-mode range\<close>

text \<open>
  C8. The docstring of \<^verbatim>\<open>raw_burst_range\<close> promises the middle range that contains the
  proportion \<open>area\<close> of the total area. The code does otherwise at these inputs: the two
  samples \<open>[0, 10]\<close> give the range \<open>(2, 2)\<close>, whose bounds are equal and which encloses
  nothing; the samples \<open>[0, 10, 0]\<close> with the area fraction \<open>9 / 10\<close> and no expansion
  give \<open>(2, 3)\<close>, which encloses the area \<open>5\<close> of a total of \<open>10\<close>, less than nine
  tenths of it.
\<close>

theorem raw_burst_range_area_shortfall:
  "raw_burst_range [0, 10] (9 / 10) (1 / 10) = Some (2, 2) \<and>
   \<not> (2::real) < 2 \<and>
   raw_burst_range [0, 10, 0] (9 / 10) 0 = Some (2, 3) \<and>
   trapz (take 3 [0, 10, 0]) - trapz (take 2 [0, 10, 0]) < 9 / 10 * trapz [0, 10, 0]"
  by (simp add: raw_burst_range_def area_scan.simps Let_def numeral_2_eq_2 numeral_3_eq_3)

section \<open>The fit statistics\<close>

lemma comprehension_Inr:
  "\<forall>x\<in>set xs. f x = Inr (g x) \<Longrightarrow> comprehension f xs = Inr (map g xs)"
  by (induction xs) simp_all

lemma residuals_squares:
  "length ys = length xs \<Longrightarrow>
   sum_list (map (\<lambda>r. r ^ 2) (map (\<lambda>(v, w). v - w) (zip ys (map f xs)))) = ss_res f xs ys"
proof (induction xs arbitrary: ys)
  case Nil
  then show ?case by (simp add: ss_res_def)
next
  case (Cons x xs)
  then obtain y ys' where ys: "ys = y # ys'" by (cases ys) auto
  with Cons.prems have "length ys' = length xs" by simp
  from Cons.IH [OF this] ys show ?case by (simp add: ss_res_def)
qed

lemma rsquared_eval:
  assumes "length ys = length xs"
    and "\<forall>x\<in>set xs. exgauss pdf x params = Inr (f x)"
    and "ss_tot ys \<noteq> 0"
  shows "rsquared pdf xs ys params = Inr (1 - ss_res f xs ys / ss_tot ys)"
proof -
  have "ys \<noteq> []" using assms(3) by (auto simp: ss_tot_def)
  moreover have "np_subtract ys (map f xs) = Inr (map (\<lambda>(v, w). v - w) (zip ys (map f xs)))"
    using assms(1) by (simp add: np_subtract_def)
  ultimately show ?thesis
    using assms(3) comprehension_Inr [OF assms(2)] residuals_squares [OF assms(1), of f]
    by (simp add: rsquared_def np_mean_def Let_def ss_tot_def)
qed

lemma rsquared_le_one:
  assumes "rsquared pdf xs ys params = Inr rs"
  shows "rs \<le> 1"
proof -
  from assms obtain res m where
    rs: "rs = 1 - sum_list (map (\<lambda>r. r ^ 2) res) / sum_list (map (\<lambda>y. (y - m) ^ 2) ys)"
    by (auto simp: rsquared_def Let_def split: sum.splits if_splits)
  have "0 \<le> sum_list (map (\<lambda>r. r ^ 2) res)" by (rule sum_list_nonneg) auto
  moreover have "0 \<le> sum_list (map (\<lambda>y. (y - m) ^ 2) ys)" by (rule sum_list_nonneg) auto
  ultimately have "0 \<le> sum_list (map (\<lambda>r. r ^ 2) res) / sum_list (map (\<lambda>y. (y - m) ^ 2) ys)"
    by (rule divide_nonneg_nonneg)
  with rs show ?thesis by simp
qed

lemma adjusted_rsquared_eval:
  assumes "rsquared pdf xs ys params = Inr rs"
  shows "adjusted_rsquared pdf xs ys params =
           (if int (length xs) - int (length params) - 1 = 0 then Inl ZeroDivisionError
            else Inr (1 - (1 - rs) * (real (length xs) - 1) /
                        (real (length xs) - real (length params) - 1)))"
  using assms by (simp add: adjusted_rsquared_def Let_def)

lemma adjusted_gap:
  fixes rs n p :: real
  assumes "n - p - 1 \<noteq> 0"
  shows "rs - (1 - (1 - rs) * (n - 1) / (n - p - 1)) = (1 - rs) * p / (n - p - 1)"
  using assms by (simp add: field_simps)

text \<open>
  C5, as the code has it. For samples of equal number, a model that has a value
  \<open>f x\<close> at every sample and \<open>SS_tot\<close> other than \<open>0\<close>, \<open>rsquared\<close> returns
  \<open>R\<^sup>2 = 1 - SS_res / SS_tot\<close> and \<open>adjusted_rsquared\<close> returns
  \<open>1 - (1 - R\<^sup>2) * (n - 1) / (n - p - 1)\<close> whenever \<open>n - p - 1\<close> is not \<open>0\<close>, also when it
  is negative; it has no finite value there when \<open>n - p - 1 = 0\<close>.
\<close>

theorem adjusted_rsquared_value:
  assumes "length ys = length xs"
    and "\<forall>x\<in>set xs. exgauss pdf x params = Inr (f x)"
    and "ss_tot ys \<noteq> 0"
  shows "rsquared pdf xs ys params = Inr (1 - ss_res f xs ys / ss_tot ys) \<and>
         adjusted_rsquared pdf xs ys params =
           (if int (length xs) - int (length params) - 1 = 0 then Inl ZeroDivisionError
            else Inr (1 - (1 - (1 - ss_res f xs ys / ss_tot ys)) * (real (length xs) - 1) /
                        (real (length xs) - real (length params) - 1)))"
  using rsquared_eval [OF assms] adjusted_rsquared_eval [OF rsquared_eval [OF assms]] by simp

text \<open>
  C6, as the code has it. Where \<open>rsquared\<close> has a value and \<open>n - p - 1 > 0\<close>,
  \<open>adjusted_rsquared\<close> has a value that is at most that of \<open>rsquared\<close>, and the two are
  equal exactly when \<open>p = 0\<close> or \<open>R\<^sup>2 = 1\<close>.
\<close>

theorem adjusted_le_rsquared:
  assumes "rsquared pdf xs ys params = Inr rs"
    and "0 < int (length xs) - int (length params) - 1"
  shows "\<exists>adj. adjusted_rsquared pdf xs ys params = Inr adj \<and> adj \<le> rs \<and>
               (adj = rs \<longleftrightarrow> length params = 0 \<or> rs = 1)"
proof -
  let ?n = "real (length xs)" and ?p = "real (length params)"
  let ?adj = "1 - (1 - rs) * (?n - 1) / (?n - ?p - 1)"
  from assms(2) have d: "0 < ?n - ?p - 1" by linarith
  from assms(2) have "adjusted_rsquared pdf xs ys params = Inr ?adj"
    using adjusted_rsquared_eval [OF assms(1)] by simp
  moreover have gap: "rs - ?adj = (1 - rs) * ?p / (?n - ?p - 1)"
    using d by (intro adjusted_gap) simp
  moreover have "0 \<le> (1 - rs) * ?p / (?n - ?p - 1)"
    using rsquared_le_one [OF assms(1)] d by simp
  moreover have "(1 - rs) * ?p / (?n - ?p - 1) = 0 \<longleftrightarrow> length params = 0 \<or> rs = 1"
    using d by auto
  ultimately have "?adj \<le> rs" "?adj = rs \<longleftrightarrow> length params = 0 \<or> rs = 1"
    by linarith+
  with \<open>adjusted_rsquared pdf xs ys params = Inr ?adj\<close> show ?thesis by blast
qed

section \<open>Values of the exponentially modified Gaussian density\<close>

lemma erf_minus: "erf (- z) = - erf z"
  by (simp add: erf_def)

lemma erf_zero: "erf 0 = 0"
  by (simp add: erf_def)

lemma pdf_at_1: "exponnorm_pdf 1 1 0 1 = exp (- 1 / 2) / 2"
  by (simp add: exponnorm_pdf_def exponnorm_std_pdf_def erfc_def erf_zero)

lemma pdf_at_0: "exponnorm_pdf 0 1 0 1 = exp (1 / 2) / 2 * (1 - erf (1 / sqrt 2))"
  by (simp add: exponnorm_pdf_def exponnorm_std_pdf_def erfc_def)

lemma pdf_at_2: "exponnorm_pdf 2 1 0 1 = exp (- 3 / 2) / 2 * (1 + erf (1 / sqrt 2))"
proof -
  have "erfc (- (2 - 1) / sqrt 2) = 1 + erf (1 / sqrt 2)"
    using erf_minus [of "1 / sqrt 2"] by (simp add: erfc_def)
  moreover have "(1::real) / 2 - 2 = - 3 / 2" by simp
  ultimately show ?thesis
    by (simp add: exponnorm_pdf_def exponnorm_std_pdf_def)
qed

lemma pdf_not_constant:
  "\<not> (exponnorm_pdf 0 1 0 1 = exponnorm_pdf 1 1 0 1 \<and>
      exponnorm_pdf 2 1 0 1 = exponnorm_pdf 1 1 0 1)"
proof
  assume eq: "exponnorm_pdf 0 1 0 1 = exponnorm_pdf 1 1 0 1 \<and>
      exponnorm_pdf 2 1 0 1 = exponnorm_pdf 1 1 0 1"
  let ?E = "erf (1 / sqrt 2)"
  from eq have a: "exp (1 / 2) * (1 - ?E) = exp (- 1 / 2)"
    by (simp add: pdf_at_0 pdf_at_1)
  from eq have b: "exp (- 3 / 2) * (1 + ?E) = exp (- 1 / 2)"
    by (simp add: pdf_at_2 pdf_at_1)
  have "exp (- (1 / 2)) * (exp (1 / 2) * (1 - ?E)) = 1 - ?E"
    by (simp add: exp_minus)
  with a have a': "1 - ?E = exp (- (1 / 2)) * exp (- 1 / 2)" by simp
  have "exp (3 / 2) * (exp (- 3 / 2) * (1 + ?E)) = 1 + ?E"
    using exp_add [of "3 / 2" "- 3 / 2 :: real"] by (simp add: mult.assoc [symmetric])
  with b have b': "1 + ?E = exp (3 / 2) * exp (- 1 / 2)" by simp
  have "exp (- (1 / 2)) * exp (- 1 / 2) = exp (- 1 :: real)"
    using exp_add [of "- (1 / 2)" "- 1 / 2 :: real"] by simp
  moreover have "exp (3 / 2) * exp (- 1 / 2) = exp (1 :: real)"
    using exp_add [of "3 / 2" "- 1 / 2 :: real"] by simp
  ultimately have "2 = exp (1 :: real) + exp (- 1)" using a' b' by linarith
  moreover have "2 \<le> exp (1 :: real)" using exp_ge_add_one_self [of "1 :: real"] by simp
  moreover have "0 < exp (- 1 :: real)" by simp
  ultimately show False by linarith
qed

lemma ss_tot_zero_constant:
  assumes "ss_tot ys = 0"
  shows "\<forall>y\<in>set ys. y = sum_list ys / real (length ys)"
proof -
  let ?m = "sum_list ys / real (length ys)"
  have "\<forall>s\<in>set (map (\<lambda>y. (y - ?m) ^ 2) ys). s = 0"
    using assms unfolding ss_tot_def
    by (subst (asm) sum_list_nonneg_eq_0_iff) auto
  then show ?thesis by auto
qed

theorem adjusted_rsquared_value_witness:
  "length [0, 1, 0, 1, 0, 1 :: real] = length [0, 1, 2, 3, 4, 5 :: real] \<and>
   ss_tot [0, 1, 0, 1, 0, 1] \<noteq> 0 \<and>
   rsquared exponnorm_pdf [0, 1, 2, 3, 4, 5] [0, 1, 0, 1, 0, 1] [0, 0, 1, 1] = Inr (- 1) \<and>
   adjusted_rsquared exponnorm_pdf [0, 1, 2, 3, 4, 5] [0, 1, 0, 1, 0, 1] [0, 0, 1, 1] = Inr (- 9)"
proof -
  let ?xs = "[0, 1, 2, 3, 4, 5 :: real]" and ?ys = "[0, 1, 0, 1, 0, 1 :: real]"
  let ?f = "\<lambda>x :: real. (0 :: real)"
  have len: "length ?ys = length ?xs" by simp
  have fit: "\<forall>x\<in>set ?xs. exgauss exponnorm_pdf x [0, 0, 1, 1] = Inr (?f x)"
    by (simp add: exgauss_def range3_def exgauss_term_def)
  have tot: "ss_tot ?ys = 3 / 2" by (simp add: ss_tot_def power2_eq_square)
  then have nz: "ss_tot ?ys \<noteq> 0" by simp
  have res: "ss_res ?f ?xs ?ys = 3" by (simp add: ss_res_def)
  from adjusted_rsquared_value [OF len fit nz] len nz show ?thesis
    unfolding tot res by simp
qed

text \<open>
  C5 as stated fails in both directions. With two samples and four parameters
  \<open>n - p - 1 = - 3\<close>, and \<open>adjusted_rsquared\<close> returns the number \<open>5 / 3\<close>; with six
  equal samples and four parameters \<open>n - p - 1 = 1\<close>, and \<open>SS_tot = 0\<close> leaves no value.
\<close>

theorem adjusted_rsquared_value_counterexample:
  "int (length [0, 1 :: real]) - int (length [0, 0, 1, 1 :: real]) - 1 \<le> 0 \<and>
   adjusted_rsquared exponnorm_pdf [0, 1] [0, 1] [0, 0, 1, 1] = Inr (5 / 3) \<and>
   0 < int (length [0, 1, 2, 3, 4, 5 :: real]) - int (length [0, 0, 1, 1 :: real]) - 1 \<and>
   adjusted_rsquared exponnorm_pdf [0, 1, 2, 3, 4, 5] [1, 1, 1, 1, 1, 1] [0, 0, 1, 1] =
     Inl ZeroDivisionError"
  by (simp add: adjusted_rsquared_def rsquared_def np_subtract_def np_mean_def exgauss_def
      range3_def exgauss_term_def Let_def power2_eq_square)

theorem adjusted_le_rsquared_witness:
  "rsquared exponnorm_pdf [0, 1, 2, 3, 4, 5] [0, 1, 0, 1, 0, 1] [0, 0, 1, 1] = Inr (- 1) \<and>
   0 < int (length [0, 1, 2, 3, 4, 5 :: real]) - int (length [0, 0, 1, 1 :: real]) - 1 \<and>
   (\<exists>adj. adjusted_rsquared exponnorm_pdf [0, 1, 2, 3, 4, 5] [0, 1, 0, 1, 0, 1] [0, 0, 1, 1] = Inr adj \<and>
          adj \<le> - 1 \<and> (adj = - 1 \<longleftrightarrow> length [0, 0, 1, 1 :: real] = 0 \<or> (- 1 :: real) = 1))"
proof -
  have rs: "rsquared exponnorm_pdf [0, 1, 2, 3, 4, 5] [0, 1, 0, 1, 0, 1] [0, 0, 1, 1] = Inr (- 1)"
    by (simp add: rsquared_def np_subtract_def np_mean_def exgauss_def
        range3_def exgauss_term_def Let_def power2_eq_square)
  have d: "0 < int (length [0, 1, 2, 3, 4, 5 :: real]) - int (length [0, 0, 1, 1 :: real]) - 1"
    by simp
  from adjusted_le_rsquared [OF rs d] rs d show ?thesis by blast
qed

text \<open>
  C6 as stated fails on a perfect fit: the samples are the values of the one-component
  model itself at \<open>0, 1, 2, 0, 1, 2\<close>, so that \<open>R\<^sup>2 = 1\<close>, and the adjusted value is \<open>1\<close>
  as well although there are four parameters.
\<close>

theorem adjusted_le_rsquared_counterexample:
  "0 < int (length [0, 1, 2, 0, 1, 2 :: real]) - int (length [1, 0, 1, 1 :: real]) - 1 \<and>
   length [1, 0, 1, 1 :: real] \<noteq> 0 \<and>
   rsquared exponnorm_pdf [0, 1, 2, 0, 1, 2]
     [exponnorm_pdf 0 1 0 1, exponnorm_pdf 1 1 0 1, exponnorm_pdf 2 1 0 1,
      exponnorm_pdf 0 1 0 1, exponnorm_pdf 1 1 0 1, exponnorm_pdf 2 1 0 1] [1, 0, 1, 1] = Inr 1 \<and>
   adjusted_rsquared exponnorm_pdf [0, 1, 2, 0, 1, 2]
     [exponnorm_pdf 0 1 0 1, exponnorm_pdf 1 1 0 1, exponnorm_pdf 2 1 0 1,
      exponnorm_pdf 0 1 0 1, exponnorm_pdf 1 1 0 1, exponnorm_pdf 2 1 0 1] [1, 0, 1, 1] = Inr 1"
proof -
  let ?xs = "[0, 1, 2, 0, 1, 2 :: real]"
  let ?ys = "[exponnorm_pdf 0 1 0 1, exponnorm_pdf 1 1 0 1, exponnorm_pdf 2 1 0 1,
      exponnorm_pdf 0 1 0 1, exponnorm_pdf 1 1 0 1, exponnorm_pdf 2 1 0 1]"
  let ?f = "\<lambda>x. exponnorm_pdf x 1 0 1"
  have len: "length ?ys = length ?xs" by simp
  have fit: "\<forall>x\<in>set ?xs. exgauss exponnorm_pdf x [1, 0, 1, 1] = Inr (?f x)"
    by (simp add: exgauss_def range3_def exgauss_term_def)
  have nz: "ss_tot ?ys \<noteq> 0"
  proof
    assume "ss_tot ?ys = 0"
    from ss_tot_zero_constant [OF this]
    have "exponnorm_pdf 0 1 0 1 = sum_list ?ys / real (length ?ys)"
      "exponnorm_pdf 1 1 0 1 = sum_list ?ys / real (length ?ys)"
      "exponnorm_pdf 2 1 0 1 = sum_list ?ys / real (length ?ys)"
      by simp_all
    then have "exponnorm_pdf 0 1 0 1 = exponnorm_pdf 1 1 0 1 \<and>
      exponnorm_pdf 2 1 0 1 = exponnorm_pdf 1 1 0 1" by simp
    with pdf_not_constant show False ..
  qed
  have res: "ss_res ?f ?xs ?ys = 0" by (simp add: ss_res_def)
  have rs: "rsquared exponnorm_pdf ?xs ?ys [1, 0, 1, 1] = Inr 1"
    using rsquared_eval [OF len fit nz] res by simp
  have "adjusted_rsquared exponnorm_pdf ?xs ?ys [1, 0, 1, 1] = Inr 1"
    using adjusted_rsquared_eval [OF rs] by simp
  with rs show ?thesis by simp
qed

section \<open>The sign of the evaluator\<close>

text \<open>
  Nothing in \<open>exgauss\<close> constrains the amplitudes: the vector \<open>[- 1, 0, 1, 1]\<close> has length
  \<open>3 * 1 + 1\<close>, and with the exponentially modified Gaussian density \<open>exgauss\<close> is
  negative at \<open>x = 1\<close>.
\<close>

lemma exgauss_negative_amplitude:
  "length [- 1, 0, 1, 1 :: real] = 3 * 1 + 1 \<and>
   exgauss exponnorm_pdf 1 [- 1, 0, 1, 1] = Inr (- (exp (- 1 / 2) / 2)) \<and>
   - (exp (- 1 / 2) / 2) < (0 :: real)"
  by (simp add: exgauss_def range3_def exgauss_term_def pdf_at_1)

end
